theory Spec2Isabelle
  imports Main "HOL-Library.Word"
begin

section \<open>The JNI bootstrap bridge of nitro-app-updater\<close>

text \<open>
  The whole of \<^verbatim>\<open>android/src/main/cpp/cpp-adapter.cpp\<close>:
  \<^verbatim>\<open>
  #include "AppUpdaterOnLoad.hpp"
  #include <jni.h>
  #include <android/log.h>

  JNIEXPORT jint JNICALL JNI_OnLoad(JavaVM *vm, void *) {
    __android_log_print(ANDROID_LOG_INFO, "AppUpdater", "JNI_OnLoad called! Initializing Nitro modules...");
    return margelo::nitro::minhnc::appupdater::initialize(vm);
  }
  \<close>
  The function calls two routines that live outside this file: the Android logging
  function \<^verbatim>\<open>__android_log_print\<close> and the module's registration routine
  \<^verbatim>\<open>initialize\<close>, declared in \<^verbatim>\<open>AppUpdaterOnLoad.hpp\<close>. Both are parameters
  of the model, and every theorem below holds for all their behaviours.
\<close>

subsection \<open>Values\<close>

text \<open>
  A C pointer is null or an address. \<^verbatim>\<open>JavaVM *\<close> and \<^verbatim>\<open>void *\<close> are both
  opaque to the bridge: it never reads through either.
\<close>

datatype pointer = nullptr | Address nat

type_synonym JavaVM_ptr = pointer
type_synonym void_ptr = pointer

text \<open>
  \<^verbatim>\<open>jint\<close> is \<^verbatim>\<open>int32_t\<close>, and \<^verbatim>\<open>int\<close> has 32 bits on every Android ABI,
  so the conversion from the \<^verbatim>\<open>int\<close> that \<^verbatim>\<open>initialize\<close> returns to the
  \<^verbatim>\<open>jint\<close> that \<^verbatim>\<open>JNI_OnLoad\<close> returns is the identity. Signed values
  are read with \<open>sint\<close>.
\<close>

type_synonym c_int = "32 word"
type_synonym jint = "32 word"

text \<open>The priorities of \<^verbatim>\<open><android/log.h>\<close>, in the order of the enum (0 to 8).\<close>

datatype android_LogPriority =
    ANDROID_LOG_UNKNOWN
  | ANDROID_LOG_DEFAULT
  | ANDROID_LOG_VERBOSE
  | ANDROID_LOG_DEBUG
  | ANDROID_LOG_INFO
  | ANDROID_LOG_WARN
  | ANDROID_LOG_ERROR
  | ANDROID_LOG_FATAL
  | ANDROID_LOG_SILENT

text \<open>A C++ exception in flight, named by a description of the thrown object.\<close>

datatype cpp_exception = Cpp_exception string

subsection \<open>The external routines and the observable state\<close>

text \<open>
  The state the external routines act on is an arbitrary type \<open>'w\<close> (the log buffer, the
  Java VM, the module registry: whatever they touch).
  \<^item> \<open>android_log_print prio tag fmt\<close> is a C function: it always returns, with an
    \<^verbatim>\<open>int\<close> that is negative when the record could not be written. It cannot throw.
  \<^item> \<open>initialize vm\<close> is a C++ function that is not declared \<^verbatim>\<open>noexcept\<close> in this
    file: it returns an \<^verbatim>\<open>int\<close> (\<open>Inr\<close>), throws (\<open>Inl\<close>), or never returns
    (\<open>None\<close>).
\<close>

record 'w externals =
  android_log_print :: "android_LogPriority \<Rightarrow> string \<Rightarrow> string \<Rightarrow> 'w \<Rightarrow> c_int \<times> 'w"
  initialize :: "JavaVM_ptr \<Rightarrow> 'w \<Rightarrow> ((cpp_exception + c_int) \<times> 'w) option"

text \<open>
  Every call that leaves the bridge is recorded, in order, in \<open>calls\<close>; \<open>world\<close> is the
  state of the external routines. The bridge has no variable of static storage duration,
  so the state has no component of the bridge's own.
\<close>

datatype call =
    Log_print android_LogPriority string string
  | Initialize JavaVM_ptr

record 'w state =
  calls :: "call list"
  world :: 'w

primrec is_Initialize :: "call \<Rightarrow> bool" where
  "is_Initialize (Initialize vm) = True"
| "is_Initialize (Log_print prio tag fmt) = False"

primrec is_Log_print :: "call \<Rightarrow> bool" where
  "is_Log_print (Log_print prio tag fmt) = True"
| "is_Log_print (Initialize vm) = False"

text \<open>
  A call of \<^verbatim>\<open>__android_log_print\<close>: the call is recorded, the sink runs, its status
  comes back with the new state. The format string of the one call in this file has no
  conversion specification, so there are no variadic arguments.
\<close>

definition call_android_log_print ::
  "'w externals \<Rightarrow> android_LogPriority \<Rightarrow> string \<Rightarrow> string \<Rightarrow> 'w state \<Rightarrow> c_int \<times> 'w state" where
  "call_android_log_print ext prio tag fmt s =
     (let (status, w) = android_log_print ext prio tag fmt (world s)
      in (status, \<lparr>calls = calls s @ [Log_print prio tag fmt], world = w\<rparr>))"

text \<open>
  A call of \<^verbatim>\<open>initialize\<close>: the call is recorded when it is made; when the routine
  never returns, the state stays the one of the moment of the call.
\<close>

definition call_initialize ::
  "'w externals \<Rightarrow> JavaVM_ptr \<Rightarrow> 'w state \<Rightarrow> (cpp_exception + c_int) option \<times> 'w state" where
  "call_initialize ext vm s =
     (let s1 = \<lparr>calls = calls s @ [Initialize vm], world = world s\<rparr>
      in case initialize ext vm (world s1) of
           None \<Rightarrow> (None, s1)
         | Some (res, w) \<Rightarrow> (Some res, \<lparr>calls = calls s1, world = w\<rparr>))"

subsection \<open>The entry point\<close>

text \<open>
  \<^verbatim>\<open>JNI_OnLoad(JavaVM *vm, void *)\<close>: the status of the log call is discarded (the
  call is an expression statement), and the value of \<^verbatim>\<open>initialize(vm)\<close> is returned.
  There is no \<^verbatim>\<open>try\<close> block: an exception of \<^verbatim>\<open>initialize\<close> leaves the function
  (\<open>Some (Inl e)\<close>). The result is \<open>None\<close> when the function never returns.
\<close>

definition JNI_OnLoad ::
  "'w externals \<Rightarrow> JavaVM_ptr \<Rightarrow> void_ptr \<Rightarrow> 'w state \<Rightarrow> (cpp_exception + jint) option \<times> 'w state" where
  "JNI_OnLoad ext vm reserved s =
     (let (status, s1) = call_android_log_print ext ANDROID_LOG_INFO ''AppUpdater''
                           ''JNI_OnLoad called! Initializing Nitro modules...'' s
      in call_initialize ext vm s1)"

subsection \<open>Notions used to state the properties\<close>

text \<open>The diagnostic record of the entry point, as it reaches the sink.\<close>

definition diagnostic_record :: call where
  "diagnostic_record =
     Log_print ANDROID_LOG_INFO ''AppUpdater'' ''JNI_OnLoad called! Initializing Nitro modules...''"

text \<open>The state of the external routines once the sink has handled the diagnostic record.\<close>

definition world_after_log :: "'w externals \<Rightarrow> 'w state \<Rightarrow> 'w" where
  "world_after_log ext s =
     snd (android_log_print ext ANDROID_LOG_INFO ''AppUpdater''
            ''JNI_OnLoad called! Initializing Nitro modules...'' (world s))"

text \<open>The calls one invocation of the entry point adds to the record.\<close>

definition calls_made :: "'w externals \<Rightarrow> JavaVM_ptr \<Rightarrow> void_ptr \<Rightarrow> 'w state \<Rightarrow> call list" where
  "calls_made ext vm reserved s =
     drop (length (calls s)) (calls (snd (JNI_OnLoad ext vm reserved s)))"

subsection \<open>Concrete external routines\<close>

text \<open>
  Stand-ins for the two external routines, used to run the entry point on concrete
  inputs: a sink that writes the record (status 1) and one that is out of order
  (status -1), neither touching the state; a registration routine that returns a given
  code, one that throws, one that never returns, and one that counts its calls in the
  state and accepts only the first. The last two keep a journal of their own in the
  external state: the sink notes every record handed to it and reports a given status,
  the registration routine notes every handle it is run with and returns a given code.
\<close>

definition sink_ok :: "android_LogPriority \<Rightarrow> string \<Rightarrow> string \<Rightarrow> 'w \<Rightarrow> c_int \<times> 'w" where
  "sink_ok prio tag fmt w = (1, w)"

definition sink_down :: "android_LogPriority \<Rightarrow> string \<Rightarrow> string \<Rightarrow> 'w \<Rightarrow> c_int \<times> 'w" where
  "sink_down prio tag fmt w = (- 1, w)"

definition init_returns :: "c_int \<Rightarrow> JavaVM_ptr \<Rightarrow> 'w \<Rightarrow> ((cpp_exception + c_int) \<times> 'w) option" where
  "init_returns code vm w = Some (Inr code, w)"

definition init_throws :: "cpp_exception \<Rightarrow> JavaVM_ptr \<Rightarrow> 'w \<Rightarrow> ((cpp_exception + c_int) \<times> 'w) option" where
  "init_throws e vm w = Some (Inl e, w)"

definition init_hangs :: "JavaVM_ptr \<Rightarrow> 'w \<Rightarrow> ((cpp_exception + c_int) \<times> 'w) option" where
  "init_hangs vm w = None"

definition init_once :: "JavaVM_ptr \<Rightarrow> nat \<Rightarrow> ((cpp_exception + c_int) \<times> nat) option" where
  "init_once vm n = Some (Inr (if n = 0 then 0 else - 1), Suc n)"

definition sink_journal ::
  "c_int \<Rightarrow> android_LogPriority \<Rightarrow> string \<Rightarrow> string \<Rightarrow> call list \<Rightarrow> c_int \<times> call list" where
  "sink_journal status prio tag fmt w = (status, w @ [Log_print prio tag fmt])"

definition init_journal ::
  "c_int \<Rightarrow> JavaVM_ptr \<Rightarrow> call list \<Rightarrow> ((cpp_exception + c_int) \<times> call list) option" where
  "init_journal code vm w = Some (Inr code, w @ [Initialize vm])"

definition fresh :: "'w \<Rightarrow> 'w state" where
  "fresh w = \<lparr>calls = [], world = w\<rparr>"

section \<open>Properties\<close>

subsection \<open>The entry point in closed form\<close>

lemma JNI_OnLoad_unfold:
  "JNI_OnLoad ext vm reserved s =
     (case initialize ext vm (world_after_log ext s) of
        None \<Rightarrow>
          (None, \<lparr>calls = calls s @ [diagnostic_record, Initialize vm],
                  world = world_after_log ext s\<rparr>)
      | Some (res, w) \<Rightarrow>
          (Some res, \<lparr>calls = calls s @ [diagnostic_record, Initialize vm], world = w\<rparr>))"
  by (simp add: JNI_OnLoad_def call_android_log_print_def call_initialize_def
      world_after_log_def diagnostic_record_def split: prod.splits option.splits)

lemma calls_JNI_OnLoad:
  "calls (snd (JNI_OnLoad ext vm reserved s)) = calls s @ [diagnostic_record, Initialize vm]"
  by (simp add: JNI_OnLoad_unfold split: option.splits prod.splits)

lemma world_JNI_OnLoad:
  "world (snd (JNI_OnLoad ext vm reserved s)) =
     (case initialize ext vm (world_after_log ext s) of
        None \<Rightarrow> world_after_log ext s
      | Some (res, w) \<Rightarrow> w)"
  by (simp add: JNI_OnLoad_unfold split: option.splits prod.splits)

subsection \<open>The status of the registration routine is passed through\<close>

text \<open>
  C1. For every runtime handle, every reserved argument, every behaviour of the two
  external routines and every state, what \<open>JNI_OnLoad\<close> hands back to the host is what
  \<open>initialize\<close> handed to it for that handle, called in the state the sink left: the same
  code when it returned one (and the same exception when it threw, and no return when it
  did not return). No code is translated, swallowed or replaced.
\<close>

theorem JNI_OnLoad_passes_status_through:
  "fst (JNI_OnLoad ext vm reserved s) =
     map_option fst (initialize ext vm (world_after_log ext s))"
proof (cases "initialize ext vm (world_after_log ext s)")
  case None
  then show ?thesis by (simp add: JNI_OnLoad_unfold)
next
  case (Some rw)
  then show ?thesis by (cases rw) (simp add: JNI_OnLoad_unfold)
qed

text \<open>The two end-to-end scenarios: code 0 comes back as 0, code -1 as -1.\<close>

lemma scenario_success:
  "fst (JNI_OnLoad \<lparr>android_log_print = sink_ok, initialize = init_returns 0\<rparr>
          (Address 1) nullptr (fresh ())) = Some (Inr 0)"
  by (simp add: JNI_OnLoad_unfold init_returns_def)

lemma scenario_failure:
  "fst (JNI_OnLoad \<lparr>android_log_print = sink_ok, initialize = init_returns (- 1)\<rparr>
          (Address 1) nullptr (fresh ())) = Some (Inr (- 1))
   \<and> calls (snd (JNI_OnLoad \<lparr>android_log_print = sink_ok, initialize = init_returns (- 1)\<rparr>
          (Address 1) nullptr (fresh ()))) = [diagnostic_record, Initialize (Address 1)]"
  by (simp add: JNI_OnLoad_unfold init_returns_def fresh_def)

text \<open>The third scenario: the sink is out of order, the load still returns the real status.\<close>

lemma scenario_sink_outage:
  "JNI_OnLoad \<lparr>android_log_print = sink_down, initialize = init_returns 0\<rparr>
     (Address 1) nullptr (fresh ())
   = (Some (Inr 0), \<lparr>calls = [diagnostic_record, Initialize (Address 1)], world = ()\<rparr>)"
  by (simp add: JNI_OnLoad_unfold init_returns_def fresh_def)

subsection \<open>A null handle\<close>

text \<open>
  C2, as stated, fails. The function has no test of \<open>vm\<close>: with a null handle and a
  registration routine that answers 0, the routine is called with the null handle and
  its 0 is what the host receives.
\<close>

theorem JNI_OnLoad_null_handle_counterexample:
  "fst (JNI_OnLoad \<lparr>android_log_print = sink_ok, initialize = init_returns 0\<rparr>
          nullptr nullptr (fresh ())) = Some (Inr 0)
   \<and> calls (snd (JNI_OnLoad \<lparr>android_log_print = sink_ok, initialize = init_returns 0\<rparr>
          nullptr nullptr (fresh ()))) = [diagnostic_record, Initialize nullptr]"
  by (simp add: JNI_OnLoad_unfold init_returns_def fresh_def)

text \<open>
  C2, amended. A null handle is treated like any other: the entry point emits the
  diagnostic, calls the registration routine once with the null handle, and returns
  whatever that routine returns. The bridge itself never reads through the handle (the
  only use of \<open>vm\<close> is as the argument of \<open>initialize\<close>); what happens to a null handle is
  the registration routine's contract.
\<close>

theorem JNI_OnLoad_forwards_null_handle:
  "fst (JNI_OnLoad ext nullptr reserved s) =
     map_option fst (initialize ext nullptr (world_after_log ext s))
   \<and> calls_made ext nullptr reserved s = [diagnostic_record, Initialize nullptr]"
  by (simp add: calls_made_def calls_JNI_OnLoad JNI_OnLoad_unfold split: option.splits)

subsection \<open>The diagnostic record\<close>

text \<open>
  C3. Every invocation hands exactly one record to the sink, of priority
  \<open>ANDROID_LOG_INFO\<close>, and does so before it calls the registration routine, whatever
  the registration routine does afterwards (return any code, throw, or not return):
  \<^item> the calls of one invocation are the diagnostic and then \<open>initialize vm\<close>;
  \<^item> the sink is run once, on the state of entry, and the registration routine is run on
    the state the sink left: the result of the invocation is the routine's result in
    that state, and the state the invocation leaves is the one the routine left there
    (the one the sink left, when the routine does not return).
\<close>

theorem JNI_OnLoad_diagnostic_once_before_initialize:
  "calls_made ext vm reserved s = [diagnostic_record, Initialize vm]
   \<and> filter is_Log_print (calls_made ext vm reserved s) =
       [Log_print ANDROID_LOG_INFO ''AppUpdater''
          ''JNI_OnLoad called! Initializing Nitro modules...'']
   \<and> fst (JNI_OnLoad ext vm reserved s) =
       map_option fst
         (initialize ext vm
            (snd (android_log_print ext ANDROID_LOG_INFO ''AppUpdater''
                    ''JNI_OnLoad called! Initializing Nitro modules...'' (world s))))
   \<and> world (snd (JNI_OnLoad ext vm reserved s)) =
       (case initialize ext vm
               (snd (android_log_print ext ANDROID_LOG_INFO ''AppUpdater''
                       ''JNI_OnLoad called! Initializing Nitro modules...'' (world s))) of
          None \<Rightarrow>
            snd (android_log_print ext ANDROID_LOG_INFO ''AppUpdater''
                   ''JNI_OnLoad called! Initializing Nitro modules...'' (world s))
        | Some (res, w) \<Rightarrow> w)"
proof -
  have made: "calls_made ext vm reserved s = [diagnostic_record, Initialize vm]"
    by (simp add: calls_made_def calls_JNI_OnLoad)
  have logged: "filter is_Log_print [diagnostic_record, Initialize vm] =
      [Log_print ANDROID_LOG_INFO ''AppUpdater''
         ''JNI_OnLoad called! Initializing Nitro modules...'']"
    by (simp add: diagnostic_record_def)
  have result: "fst (JNI_OnLoad ext vm reserved s) =
      map_option fst (initialize ext vm (world_after_log ext s))"
    by (simp add: JNI_OnLoad_unfold split: option.splits)
  show ?thesis
    unfolding made logged result world_JNI_OnLoad
    by (simp add: world_after_log_def split: option.splits)
qed

text \<open>
  Seen from the external routines' own journal: after a load that fails with -1, the
  journal holds the diagnostic first and the registration second, each once.
\<close>

lemma journal_of_failed_load:
  "JNI_OnLoad \<lparr>android_log_print = sink_journal 1, initialize = init_journal (- 1)\<rparr>
     (Address 1) nullptr (fresh [])
   = (Some (Inr (- 1)),
      \<lparr>calls = [diagnostic_record, Initialize (Address 1)],
        world = [diagnostic_record, Initialize (Address 1)]\<rparr>)"
  by (simp add: JNI_OnLoad_unfold world_after_log_def sink_journal_def init_journal_def
      fresh_def diagnostic_record_def)

text \<open>
  C4. The status the sink reports is discarded. Two environments with the same
  registration routine, whose sinks leave the external state alike but may report
  different outcomes (written, or failed), give the same result, the same calls and the
  same final state. In either, the registration routine is called and run: the result
  is the routine's own result in the state the sink left, and the final state is the one
  the routine left. A sink can change the status only through state that the
  registration routine itself reads, never through the bridge.
\<close>

theorem JNI_OnLoad_sink_outcome_irrelevant:
  assumes same_init: "initialize ext1 = initialize ext2"
    and same_world: "world_after_log ext1 s = world_after_log ext2 s"
  shows "JNI_OnLoad ext1 vm reserved s = JNI_OnLoad ext2 vm reserved s
         \<and> Initialize vm \<in> set (calls_made ext1 vm reserved s)
         \<and> fst (JNI_OnLoad ext1 vm reserved s) =
             map_option fst (initialize ext1 vm (world_after_log ext1 s))
         \<and> fst (JNI_OnLoad ext2 vm reserved s) =
             map_option fst (initialize ext1 vm (world_after_log ext1 s))
         \<and> world (snd (JNI_OnLoad ext2 vm reserved s)) =
             (case initialize ext1 vm (world_after_log ext1 s) of
                None \<Rightarrow> world_after_log ext1 s
              | Some (res, w) \<Rightarrow> w)"
proof -
  have same: "JNI_OnLoad ext1 vm reserved s = JNI_OnLoad ext2 vm reserved s"
    by (simp add: JNI_OnLoad_unfold same_init same_world split: option.splits)
  have called: "Initialize vm \<in> set (calls_made ext1 vm reserved s)"
    by (simp add: calls_made_def calls_JNI_OnLoad)
  have result: "fst (JNI_OnLoad ext1 vm reserved s) =
      map_option fst (initialize ext1 vm (world_after_log ext1 s))"
    by (simp add: JNI_OnLoad_unfold split: option.splits)
  have left: "world (snd (JNI_OnLoad ext1 vm reserved s)) =
      (case initialize ext1 vm (world_after_log ext1 s) of
         None \<Rightarrow> world_after_log ext1 s
       | Some (res, w) \<Rightarrow> w)"
    by (rule world_JNI_OnLoad)
  from same called result left show ?thesis
    by simp
qed

text \<open>
  A sink that writes the record against one that is out of order, both noting the
  record in their journal: the statuses differ, the entry point does the same, the
  registration routine is run after the sink (the journal shows it), and its failure
  code -1 still reaches the host.
\<close>

theorem JNI_OnLoad_sink_outcome_irrelevant_witness:
  "fst (sink_journal 1 ANDROID_LOG_INFO ''AppUpdater''
          ''JNI_OnLoad called! Initializing Nitro modules...'' [])
     \<noteq> fst (sink_journal (- 1) ANDROID_LOG_INFO ''AppUpdater''
          ''JNI_OnLoad called! Initializing Nitro modules...'' [])
   \<and> JNI_OnLoad \<lparr>android_log_print = sink_journal 1, initialize = init_journal (- 1)\<rparr>
        (Address 1) nullptr (fresh [])
     = JNI_OnLoad \<lparr>android_log_print = sink_journal (- 1), initialize = init_journal (- 1)\<rparr>
        (Address 1) nullptr (fresh [])
   \<and> JNI_OnLoad \<lparr>android_log_print = sink_journal (- 1), initialize = init_journal (- 1)\<rparr>
        (Address 1) nullptr (fresh [])
     = (Some (Inr (- 1)),
        \<lparr>calls = [diagnostic_record, Initialize (Address 1)],
          world = [diagnostic_record, Initialize (Address 1)]\<rparr>)
   \<and> Initialize (Address 1) \<in> set (calls_made
        \<lparr>android_log_print = sink_journal 1, initialize = init_journal (- 1)\<rparr>
        (Address 1) nullptr (fresh []))"
  using JNI_OnLoad_sink_outcome_irrelevant
    [of "\<lparr>android_log_print = sink_journal 1, initialize = init_journal (- 1)\<rparr>"
        "\<lparr>android_log_print = sink_journal (- 1), initialize = init_journal (- 1)\<rparr>"
        "fresh []" "Address 1" nullptr]
  by (simp add: world_after_log_def sink_journal_def init_journal_def JNI_OnLoad_unfold
      fresh_def diagnostic_record_def)

subsection \<open>Exceptions\<close>

text \<open>
  C5, as stated, fails. The function has no handler: when the registration routine
  throws, the exception leaves \<open>JNI_OnLoad\<close> towards the host, and no status code is
  returned in its place.
\<close>

theorem JNI_OnLoad_exception_counterexample:
  "fst (JNI_OnLoad
          \<lparr>android_log_print = sink_ok,
            initialize = init_throws (Cpp_exception ''registration failed'')\<rparr>
          (Address 1) nullptr (fresh ()))
     = Some (Inl (Cpp_exception ''registration failed''))"
  by (simp add: JNI_OnLoad_unfold init_throws_def)

text \<open>
  C5, amended. The entry point raises no fault of its own and catches none. It ends with
  an exception exactly when the registration routine throws, and the exception is that
  same one, unconverted; it returns a status code exactly when the registration routine
  returns one, and the code is that same one. (A failure of the sink is a return value,
  which is discarded.)
\<close>

theorem JNI_OnLoad_throws_iff_initialize_throws:
  "(fst (JNI_OnLoad ext vm reserved s) = Some (Inl e))
     = (\<exists>w. initialize ext vm (world_after_log ext s) = Some (Inl e, w))
   \<and> (fst (JNI_OnLoad ext vm reserved s) = Some (Inr code))
     = (\<exists>w. initialize ext vm (world_after_log ext s) = Some (Inr code, w))"
proof (cases "initialize ext vm (world_after_log ext s)")
  case None
  then show ?thesis by (simp add: JNI_OnLoad_unfold)
next
  case (Some rw)
  then show ?thesis by (cases rw) (auto simp add: JNI_OnLoad_unfold)
qed

subsection \<open>One delegation\<close>

text \<open>
  C6. Every invocation calls the registration routine exactly once, with the handle the
  host supplied, and that call is the last thing it does: whatever the routine answers
  (a failure code included), there is no second call, no retry and no fallback.
  \<^item> Among the calls of the invocation, one is to \<open>initialize\<close>, with \<open>vm\<close>, and it is the
    last call.
  \<^item> The result and the external state the invocation leaves are those of one run of
    \<open>initialize ext vm\<close> on the state the sink left: the routine is not run a second
    time on the state its first run produced, and nothing replaces its result.
\<close>

theorem JNI_OnLoad_calls_initialize_once:
  "filter is_Initialize (calls_made ext vm reserved s) = [Initialize vm]
   \<and> last (calls (snd (JNI_OnLoad ext vm reserved s))) = Initialize vm
   \<and> (fst (JNI_OnLoad ext vm reserved s), world (snd (JNI_OnLoad ext vm reserved s))) =
       (case initialize ext vm (world_after_log ext s) of
          None \<Rightarrow> (None, world_after_log ext s)
        | Some (res, w) \<Rightarrow> (Some res, w))"
proof -
  have once: "filter is_Initialize (calls_made ext vm reserved s) = [Initialize vm]"
    by (simp add: calls_made_def calls_JNI_OnLoad diagnostic_record_def)
  have final: "last (calls (snd (JNI_OnLoad ext vm reserved s))) = Initialize vm"
    by (simp add: calls_JNI_OnLoad)
  have run: "(fst (JNI_OnLoad ext vm reserved s), world (snd (JNI_OnLoad ext vm reserved s))) =
      (case initialize ext vm (world_after_log ext s) of
         None \<Rightarrow> (None, world_after_log ext s)
       | Some (res, w) \<Rightarrow> (Some res, w))"
    by (simp add: JNI_OnLoad_unfold split: option.splits)
  from once final run show ?thesis
    by simp
qed

text \<open>
  A registration routine that counts its runs and fails every time after the first: on
  a state where it has run once already, the load returns its -1 and the count goes from
  1 to 2, so the routine ran once during the load and was not tried again.
\<close>

lemma failed_load_runs_initialize_once:
  "JNI_OnLoad \<lparr>android_log_print = sink_ok, initialize = init_once\<rparr>
     (Address 1) nullptr (fresh 1)
   = (Some (Inr (- 1)), \<lparr>calls = [diagnostic_record, Initialize (Address 1)], world = 2\<rparr>)"
  by (simp add: JNI_OnLoad_unfold world_after_log_def sink_ok_def init_once_def fresh_def)

subsection \<open>No state of the bridge's own\<close>

text \<open>
  C7. The entry point keeps nothing between invocations. What an invocation returns, the
  external state it leaves and the calls it makes depend on the external state it starts
  from, and not on which invocations came before or with which handles; and the external
  state it leaves is the one the two external routines produced, with nothing written by
  the bridge. The handle goes to \<open>initialize\<close> and nowhere else.
\<close>

theorem JNI_OnLoad_stateless:
  assumes "world s = world s'"
  shows "fst (JNI_OnLoad ext vm reserved s) = fst (JNI_OnLoad ext vm reserved s')
         \<and> world (snd (JNI_OnLoad ext vm reserved s)) = world (snd (JNI_OnLoad ext vm reserved s'))
         \<and> calls_made ext vm reserved s = calls_made ext vm reserved s'
         \<and> world (snd (JNI_OnLoad ext vm reserved s)) =
             (case initialize ext vm (world_after_log ext s) of
                None \<Rightarrow> world_after_log ext s
              | Some (res, w) \<Rightarrow> w)"
proof -
  from assms have same: "world_after_log ext s = world_after_log ext s'"
    by (simp add: world_after_log_def)
  show ?thesis
    by (simp add: calls_made_def calls_JNI_OnLoad world_JNI_OnLoad same)
      (simp add: JNI_OnLoad_unfold same split: option.splits)
qed

text \<open>
  After a first load with handle 1 and after a first load with handle 2, a further load
  with handle 3 behaves the same: the first handle has left no trace in what the bridge
  does.
\<close>

theorem JNI_OnLoad_stateless_witness:
  "world (snd (JNI_OnLoad \<lparr>android_log_print = sink_ok, initialize = init_once\<rparr>
                 (Address 1) nullptr (fresh 0)))
     = world (snd (JNI_OnLoad \<lparr>android_log_print = sink_ok, initialize = init_once\<rparr>
                 (Address 2) nullptr (fresh 0)))
   \<and> fst (JNI_OnLoad \<lparr>android_log_print = sink_ok, initialize = init_once\<rparr> (Address 3) nullptr
        (snd (JNI_OnLoad \<lparr>android_log_print = sink_ok, initialize = init_once\<rparr>
                 (Address 1) nullptr (fresh 0))))
     = fst (JNI_OnLoad \<lparr>android_log_print = sink_ok, initialize = init_once\<rparr> (Address 3) nullptr
        (snd (JNI_OnLoad \<lparr>android_log_print = sink_ok, initialize = init_once\<rparr>
                 (Address 2) nullptr (fresh 0))))
   \<and> calls_made \<lparr>android_log_print = sink_ok, initialize = init_once\<rparr> (Address 3) nullptr
        (snd (JNI_OnLoad \<lparr>android_log_print = sink_ok, initialize = init_once\<rparr>
                 (Address 1) nullptr (fresh 0)))
     = calls_made \<lparr>android_log_print = sink_ok, initialize = init_once\<rparr> (Address 3) nullptr
        (snd (JNI_OnLoad \<lparr>android_log_print = sink_ok, initialize = init_once\<rparr>
                 (Address 2) nullptr (fresh 0)))"
  using JNI_OnLoad_stateless
    [of "snd (JNI_OnLoad \<lparr>android_log_print = sink_ok, initialize = init_once\<rparr>
                 (Address 1) nullptr (fresh 0))"
        "snd (JNI_OnLoad \<lparr>android_log_print = sink_ok, initialize = init_once\<rparr>
                 (Address 2) nullptr (fresh 0))"
        "\<lparr>android_log_print = sink_ok, initialize = init_once\<rparr>" "Address 3" nullptr]
  by (simp add: world_JNI_OnLoad init_once_def)

subsection \<open>Completion\<close>

text \<open>
  C8. When the registration routine returns (a code or an exception) in the state the
  sink left, the entry point completes: it yields that result, in the state the routine
  left, having done nothing but its two calls, one after the other. It starts no other
  activity. (The sink is a C library function and is taken to return; threads are not
  part of the model.)
\<close>

theorem JNI_OnLoad_returns_when_initialize_returns:
  assumes "initialize ext vm (world_after_log ext s) = Some (res, w)"
  shows "JNI_OnLoad ext vm reserved s =
           (Some res, \<lparr>calls = calls s @ [diagnostic_record, Initialize vm], world = w\<rparr>)"
  using assms by (simp add: JNI_OnLoad_unfold)

theorem JNI_OnLoad_returns_when_initialize_returns_witness:
  "initialize \<lparr>android_log_print = sink_ok, initialize = init_returns 0\<rparr> (Address 1)
     (world_after_log \<lparr>android_log_print = sink_ok, initialize = init_returns 0\<rparr> (fresh ()))
     = Some (Inr 0, ())
   \<and> JNI_OnLoad \<lparr>android_log_print = sink_ok, initialize = init_returns 0\<rparr>
        (Address 1) nullptr (fresh ())
     = (Some (Inr 0), \<lparr>calls = [diagnostic_record, Initialize (Address 1)], world = ()\<rparr>)"
  using JNI_OnLoad_returns_when_initialize_returns
    [of "\<lparr>android_log_print = sink_ok, initialize = init_returns 0\<rparr>" "Address 1"
        "fresh ()" "Inr 0" "()" nullptr]
  by (simp add: init_returns_def fresh_def)

text \<open>The hypothesis is needed: a registration routine that hangs hangs the entry point.\<close>

lemma JNI_OnLoad_hangs_with_initialize:
  "fst (JNI_OnLoad \<lparr>android_log_print = sink_ok, initialize = init_hangs\<rparr>
          (Address 1) nullptr (fresh ())) = None"
  by (simp add: JNI_OnLoad_unfold init_hangs_def)

subsection \<open>A second invocation\<close>


text \<open>
  With a registration routine that accepts only its first call: the first load returns
  0, the second returns the routine's -1.
\<close>

lemma second_load_example:
  "fst (JNI_OnLoad \<lparr>android_log_print = sink_ok, initialize = init_once\<rparr>
          (Address 1) nullptr (fresh 0)) = Some (Inr 0)
   \<and> fst (JNI_OnLoad \<lparr>android_log_print = sink_ok, initialize = init_once\<rparr> (Address 1) nullptr
            (snd (JNI_OnLoad \<lparr>android_log_print = sink_ok, initialize = init_once\<rparr>
                    (Address 1) nullptr (fresh 0)))) = Some (Inr (- 1))"
  by (simp add: JNI_OnLoad_unfold world_after_log_def sink_ok_def init_once_def fresh_def)

subsection \<open>The reserved argument\<close>

text \<open>
  C10. The second parameter of \<open>JNI_OnLoad\<close> has no name and is never read: for every
  handle and any two values of the reserved argument, the status returned, the calls made
  (so the argument passed to \<open>initialize\<close>) and the final state are the same.
\<close>

theorem JNI_OnLoad_ignores_reserved:
  "JNI_OnLoad ext vm reserved1 s = JNI_OnLoad ext vm reserved2 s"
  by (simp add: JNI_OnLoad_def)

end
